theory Spec2Isabelle
  imports Main
begin

section \<open>The documentation site: \<^verbatim>\<open>src/lib/metadata.ts\<close>, the constant \<^verbatim>\<open>baseUrl\<close>\<close>

text \<open>
  \<^verbatim>\<open>process.env\<close> is a dictionary from variable names to strings; a variable that is
  not set reads as \<^verbatim>\<open>undefined\<close>, here \<open>None\<close>.
\<close>

type_synonym env = "string \<rightharpoonup> string"

text \<open>
  The object built by a call \<^verbatim>\<open>new URL(s)\<close> that returns: it is identified by the
  string handed to the constructor.
\<close>

datatype url = URL string

text \<open>The exception the constructor throws for a string that does not parse.\<close>

datatype js_error = TypeError

text \<open>
  \<^verbatim>\<open>new URL(s)\<close>. The parser behind the constructor belongs to the runtime, not to
  the repository; the parameter \<open>parses\<close> says which strings it accepts. For any other
  string the constructor throws \<^verbatim>\<open>TypeError\<close>.
\<close>

definition new_URL :: "(string \<Rightarrow> bool) \<Rightarrow> string \<Rightarrow> js_error + url" where
  "new_URL parses s = (if parses s then Inr (URL s) else Inl TypeError)"

text \<open>JavaScript truthiness of a \<^verbatim>\<open>string | undefined\<close>: only the empty string and
  \<^verbatim>\<open>undefined\<close> are falsy.\<close>

fun truthy :: "string option \<Rightarrow> bool" where
  "truthy None = False"
| "truthy (Some s) = (s \<noteq> [])"

text \<open>What a template literal prints for a \<^verbatim>\<open>string | undefined\<close> placeholder.\<close>

fun interpolate :: "string option \<Rightarrow> string" where
  "interpolate None = ''undefined''"
| "interpolate (Some s) = s"

text \<open>
  The module-level constant. Its initialiser runs when the module is loaded; \<open>Inl\<close> is
  the exception that escapes the initialiser, in which case the module fails to load
  and \<^verbatim>\<open>baseUrl\<close> is never bound.
\<close>

definition baseUrl :: "(string \<Rightarrow> bool) \<Rightarrow> env \<Rightarrow> js_error + url" where
  "baseUrl parses e =
     (if e ''NODE_ENV'' = Some ''development'' \<or>
         \<not> truthy (e ''VERCEL_PROJECT_PRODUCTION_URL'')
      then new_URL parses ''http://localhost:3000''
      else new_URL parses (''https://'' @ interpolate (e ''VERCEL_PROJECT_PRODUCTION_URL'')))"

text \<open>
  An acceptance predicate for examples. The runtime's parser fails on a space in the
  host; this predicate refuses every string that holds a space and accepts every
  other string.
\<close>

definition accepts_no_space :: "string \<Rightarrow> bool" where
  "accepts_no_space s = (CHR '' '' \<notin> set s)"

section \<open>The documentation site: \<^verbatim>\<open>getLLMText\<close>\<close>

text \<open>
  A page as \<^verbatim>\<open>getLLMText\<close> reads it. \<^verbatim>\<open>page.data.type\<close> and
  \<^verbatim>\<open>page.data.description\<close> are optional in the front matter;
  \<^verbatim>\<open>page.data.getText\<close> is the page's method, a function of the requested kind of text.
\<close>

record page_data =
  type :: "string option"
  title :: string
  description :: "string option"
  getText :: "string \<Rightarrow> string"

record page =
  data :: page_data
  slugs :: "string list"
  url :: string
  path :: string

text \<open>The object literal that maps the first slug to a category name.\<close>

definition categories :: "string \<rightharpoonup> string" where
  "categories =
     [''go'' \<mapsto> ''Authsome Golang (the Go library for Authsome)'',
      ''rust'' \<mapsto> ''Authsome Rust (the Rust library for Authsome)'',
      ''ui'' \<mapsto> ''Authsome UI (the one stop Auth UI Kit)'',
      ''cli'' \<mapsto> ''Authsome CLI (the CLI tool for automating Authsome apps)'']"

text \<open>
  \<^verbatim>\<open>{...}[page.slugs[0]] ?? page.slugs[0]\<close>, as the template literal prints it.
  Indexing an empty array gives \<^verbatim>\<open>undefined\<close>, which as a property key is the string
  \<^verbatim>\<open>undefined\<close>. A key that the literal does not own is looked up in
  \<^verbatim>\<open>Object.prototype\<close>; the parameter \<open>proto\<close> gives the text the runtime prints for
  such an inherited member (none of them is nullish, so \<^verbatim>\<open>??\<close> keeps it).
\<close>

definition category :: "(string \<rightharpoonup> string) \<Rightarrow> string list \<Rightarrow> string" where
  "category proto sl =
     (let slug0 = (case sl of [] \<Rightarrow> None | s # _ \<Rightarrow> Some s);
          key = interpolate slug0
      in case categories key of
           Some c \<Rightarrow> c
         | None \<Rightarrow> (case proto key of Some inherited \<Rightarrow> inherited | None \<Rightarrow> interpolate slug0))"

definition newline :: string where
  "newline = [CHR 0x0A]"

text \<open>
  The result pairs the returned text with the log of the calls made to
  \<^verbatim>\<open>page.data.getText\<close> (the argument of each call, in order).
\<close>

definition getLLMText :: "(string \<rightharpoonup> string) \<Rightarrow> page \<Rightarrow> string \<times> string list" where
  "getLLMText proto p =
     (if type (data p) = Some ''openapi'' then ('''', [])
      else
        let cat = category proto (slugs p);
            processed = getText (data p) ''processed''
        in (''# '' @ cat @ '': '' @ title (data p) @ newline @
            ''URL: '' @ url p @ newline @
            ''Source: https://raw.githubusercontent.com/xraph/authsome/refs/heads/main/apps/docs/content/docs/''
              @ path p @ newline @
            newline @
            interpolate (description (data p)) @ newline @
            ''        '' @ newline @
            processed,
            [''processed'']))"

section \<open>The documentation site: \<^verbatim>\<open>createMetadata\<close>\<close>











section \<open>The gateway core: circuit breaker state\<close>

text \<open>
  The sources of the repository's routing and proxying core are missing; only the
  documentation site's are present. The round-robin load balancer, and
  as much of the circuit breaker as selection reads, are therefore modelled from
  sections 3, 4.2 and 4.3 of the specification. Times are milliseconds.
\<close>

text \<open>Modelled from the spec: the three states of a circuit breaker (section 4.3);
  the breaker's own code is missing.\<close>

datatype breaker_state = Closed | Open | HalfOpen

text \<open>Modelled from the spec: the circuit breaker configuration of a cluster, with
  the two parameters section 4.3 names; the configuration type is missing.\<close>

record circuit_breaker_config =
  failure_threshold :: nat
  timeout_ms :: nat

text \<open>Modelled from the spec: the per-instance Circuit Breaker State of section 3;
  the state type is missing.\<close>

record circuit_breaker =
  state :: breaker_state
  consecutive_failures :: nat
  opened_at :: nat
  half_open_probe_in_flight :: bool

text \<open>Modelled from the spec: the timed transition, missing from the sources. An open
  breaker is half-open once \<open>timeout_ms\<close> has elapsed since \<open>opened_at\<close>.\<close>

definition elapse ::
  "circuit_breaker_config \<Rightarrow> nat \<Rightarrow> circuit_breaker \<Rightarrow> circuit_breaker" where
  "elapse cfg now b =
     (if state b = Open \<and> opened_at b + timeout_ms cfg \<le> now
      then b\<lparr>state := HalfOpen, half_open_probe_in_flight := False\<rparr>
      else b)"

text \<open>Modelled from the spec: whether a breaker lets its instance be selected
  (section 4.2), missing from the sources. Open never does; half-open does while no
  probe is in flight.\<close>

definition permits :: "circuit_breaker \<Rightarrow> bool" where
  "permits b =
     (case state b of
        Closed \<Rightarrow> True
      | Open \<Rightarrow> False
      | HalfOpen \<Rightarrow> \<not> half_open_probe_in_flight b)"

section \<open>The gateway core: upstream registry and round-robin selection\<close>

text \<open>Modelled from the spec: the health states of an upstream instance (section 3);
  the type is missing.\<close>

datatype health_state = Healthy | Unhealthy | Draining

text \<open>Modelled from the spec: the Upstream Instance of section 3, without its
  connection pool handle; the type is missing.\<close>

record upstream_instance =
  address :: string
  port :: nat
  weight :: nat
  health_state :: health_state

text \<open>Modelled from the spec: an instance together with its circuit breaker state
  (one-to-one by section 3); the registry's own representation is missing.\<close>

record member =
  inst :: upstream_instance
  breaker :: circuit_breaker

text \<open>Modelled from the spec: an Upstream Cluster of section 3 that balances
  round-robin, with the fields selection reads and the per-cluster cursor of
  section 4.2; the type is missing.\<close>

record upstream_cluster =
  name :: string
  members :: "member list"
  cb_config :: circuit_breaker_config
  cursor :: nat

text \<open>Modelled from the spec: the eligibility rule of section 4.2, missing from the
  sources: healthy, let through by the breaker, and not tried before in this
  request.\<close>

definition eligible ::
  "circuit_breaker_config \<Rightarrow> nat \<Rightarrow> upstream_instance set \<Rightarrow> member \<Rightarrow> bool" where
  "eligible cfg now exclude m =
     (health_state (inst m) = Healthy \<and> permits (elapse cfg now (breaker m)) \<and>
      inst m \<notin> exclude)"

text \<open>Modelled from the spec: the round-robin strategy, missing from the sources: a
  pure function of the cursor and the list of eligible instances; the cursor wraps
  around the list.\<close>

definition round_robin :: "nat \<Rightarrow> 'a list \<Rightarrow> 'a option" where
  "round_robin cur xs = (if xs = [] then None else Some (xs ! (cur mod length xs)))"

text \<open>Modelled from the spec: \<^verbatim>\<open>select(cluster, exclude)\<close> of section 4.2, missing
  from the sources. It returns none when no instance is eligible, and advances the
  cursor otherwise.\<close>

definition select ::
  "nat \<Rightarrow> upstream_instance set \<Rightarrow> upstream_cluster \<Rightarrow>
     upstream_instance option \<times> upstream_cluster" where
  "select now exclude c =
     (case round_robin (cursor c) (filter (eligible (cb_config c) now exclude) (members c)) of
        None \<Rightarrow> (None, c)
      | Some m \<Rightarrow> (Some (inst m), c\<lparr>cursor := cursor c + 1\<rparr>))"

text \<open>Modelled from the spec: consecutive \<^verbatim>\<open>select\<close> calls against one cluster
  (section 8), one per time stamp, with nothing excluded; the results in order. The
  caller that issues them is missing.\<close>

fun select_seq :: "nat list \<Rightarrow> upstream_cluster \<Rightarrow> upstream_instance option list" where
  "select_seq [] c = []"
| "select_seq (t # ts) c = (case select t {} c of (r, c') \<Rightarrow> r # select_seq ts c')"

section \<open>Example values\<close>

text \<open>The breaker settings of the README's sample configuration: five failures, sixty
  seconds.\<close>

definition sample_config :: circuit_breaker_config where
  "sample_config = \<lparr>failure_threshold = 5, timeout_ms = 60000\<rparr>"

definition fresh_breaker :: circuit_breaker where
  "fresh_breaker =
     \<lparr>state = Closed, consecutive_failures = 0, opened_at = 0,
      half_open_probe_in_flight = False\<rparr>"

definition instance_A :: upstream_instance where
  "instance_A = \<lparr>address = ''10.0.0.1'', port = 8080, weight = 1, health_state = Healthy\<rparr>"

definition instance_B :: upstream_instance where
  "instance_B = \<lparr>address = ''10.0.0.2'', port = 8080, weight = 1, health_state = Healthy\<rparr>"

definition instance_C :: upstream_instance where
  "instance_C = \<lparr>address = ''10.0.0.3'', port = 8080, weight = 1, health_state = Healthy\<rparr>"

definition users_pair :: upstream_cluster where
  "users_pair =
     \<lparr>name = ''users'',
      members = [\<lparr>inst = instance_A, breaker = fresh_breaker\<rparr>,
                 \<lparr>inst = instance_B, breaker = fresh_breaker\<rparr>],
      cb_config = sample_config, cursor = 7\<rparr>"

definition users_triple :: upstream_cluster where
  "users_triple =
     \<lparr>name = ''users'',
      members = [\<lparr>inst = instance_A, breaker = fresh_breaker\<rparr>,
                 \<lparr>inst = instance_B, breaker = fresh_breaker\<rparr>,
                 \<lparr>inst = instance_C, breaker = fresh_breaker\<rparr>],
      cb_config = sample_config, cursor = 7\<rparr>"

section \<open>Properties of \<^verbatim>\<open>baseUrl\<close>\<close>

text \<open>
  C10, as stated: \<^verbatim>\<open>baseUrl\<close> is the URL of \<^verbatim>\<open>http://localhost:3000\<close> exactly when
  \<^verbatim>\<open>NODE_ENV\<close> is \<^verbatim>\<open>development\<close> or \<^verbatim>\<open>VERCEL_PROJECT_PRODUCTION_URL\<close> is absent or
  empty, and otherwise the URL of \<^verbatim>\<open>https://\<close> followed by the variable's value. This
  fails for a value that does not parse: in a production environment whose
  \<^verbatim>\<open>VERCEL_PROJECT_PRODUCTION_URL\<close> is \<^verbatim>\<open>bad host\<close>, the constructor throws and
  \<^verbatim>\<open>baseUrl\<close> is no URL at all.
\<close>

theorem baseUrl_unparsable_counterexample:
  "accepts_no_space ''http://localhost:3000'' \<and>
   [''NODE_ENV'' \<mapsto> ''production'', ''VERCEL_PROJECT_PRODUCTION_URL'' \<mapsto> ''bad host'']
     ''NODE_ENV'' \<noteq> Some ''development'' \<and>
   [''NODE_ENV'' \<mapsto> ''production'', ''VERCEL_PROJECT_PRODUCTION_URL'' \<mapsto> ''bad host'']
     ''VERCEL_PROJECT_PRODUCTION_URL'' = Some ''bad host'' \<and>
   baseUrl accepts_no_space
     [''NODE_ENV'' \<mapsto> ''production'', ''VERCEL_PROJECT_PRODUCTION_URL'' \<mapsto> ''bad host'']
     \<noteq> Inr (URL ''https://bad host'') \<and>
   baseUrl accepts_no_space
     [''NODE_ENV'' \<mapsto> ''production'', ''VERCEL_PROJECT_PRODUCTION_URL'' \<mapsto> ''bad host'']
     = Inl TypeError"
  by (simp add: baseUrl_def new_URL_def accepts_no_space_def)

text \<open>
  C10, amended. Let the runtime accept \<^verbatim>\<open>http://localhost:3000\<close>. Then \<^verbatim>\<open>baseUrl\<close> is
  the URL of \<^verbatim>\<open>http://localhost:3000\<close> exactly when \<^verbatim>\<open>NODE_ENV\<close> is \<^verbatim>\<open>development\<close> or
  \<^verbatim>\<open>VERCEL_PROJECT_PRODUCTION_URL\<close> is absent or empty. In every other environment the
  variable has a value \<open>v\<close>, and \<^verbatim>\<open>baseUrl\<close> is the URL of \<^verbatim>\<open>https://\<close> followed by \<open>v\<close>
  when that string parses as a URL; when it does not parse, the initialiser throws
  \<^verbatim>\<open>TypeError\<close> and \<^verbatim>\<open>baseUrl\<close> is never bound.
\<close>

theorem baseUrl_cases:
  assumes "parses ''http://localhost:3000''"
  shows
    "((baseUrl parses e = Inr (URL ''http://localhost:3000'')) =
        (e ''NODE_ENV'' = Some ''development'' \<or>
         e ''VERCEL_PROJECT_PRODUCTION_URL'' = None \<or>
         e ''VERCEL_PROJECT_PRODUCTION_URL'' = Some '''')) \<and>
     (\<not> (e ''NODE_ENV'' = Some ''development'' \<or>
         e ''VERCEL_PROJECT_PRODUCTION_URL'' = None \<or>
         e ''VERCEL_PROJECT_PRODUCTION_URL'' = Some '''') \<longrightarrow>
      (\<exists>v. e ''VERCEL_PROJECT_PRODUCTION_URL'' = Some v \<and>
           (parses (''https://'' @ v) \<longrightarrow> baseUrl parses e = Inr (URL (''https://'' @ v))) \<and>
           (\<not> parses (''https://'' @ v) \<longrightarrow> baseUrl parses e = Inl TypeError)))"
  using assms
  by (cases "e ''VERCEL_PROJECT_PRODUCTION_URL''") (simp_all add: baseUrl_def new_URL_def)

theorem baseUrl_cases_witness:
  "accepts_no_space ''http://localhost:3000'' \<and>
   baseUrl accepts_no_space
     [''NODE_ENV'' \<mapsto> ''production'',
      ''VERCEL_PROJECT_PRODUCTION_URL'' \<mapsto> ''octopus.example.com'']
     = Inr (URL ''https://octopus.example.com'') \<and>
   baseUrl accepts_no_space [''NODE_ENV'' \<mapsto> ''development'',
      ''VERCEL_PROJECT_PRODUCTION_URL'' \<mapsto> ''octopus.example.com'']
     = Inr (URL ''http://localhost:3000'') \<and>
   baseUrl accepts_no_space
     [''NODE_ENV'' \<mapsto> ''production'', ''VERCEL_PROJECT_PRODUCTION_URL'' \<mapsto> ''bad host'']
     = Inl TypeError"
proof -
  have h: "accepts_no_space ''http://localhost:3000''"
    by (simp add: accepts_no_space_def)
  have a: "baseUrl accepts_no_space
     [''NODE_ENV'' \<mapsto> ''production'',
      ''VERCEL_PROJECT_PRODUCTION_URL'' \<mapsto> ''octopus.example.com'']
     = Inr (URL ''https://octopus.example.com'')"
    using baseUrl_cases [where parses = accepts_no_space and e = "[''NODE_ENV'' \<mapsto> ''production'',
      ''VERCEL_PROJECT_PRODUCTION_URL'' \<mapsto> ''octopus.example.com'']", OF h]
    by (simp add: accepts_no_space_def)
  have b: "baseUrl accepts_no_space [''NODE_ENV'' \<mapsto> ''development'',
      ''VERCEL_PROJECT_PRODUCTION_URL'' \<mapsto> ''octopus.example.com'']
     = Inr (URL ''http://localhost:3000'')"
    using baseUrl_cases [where parses = accepts_no_space and e = "[''NODE_ENV'' \<mapsto> ''development'',
      ''VERCEL_PROJECT_PRODUCTION_URL'' \<mapsto> ''octopus.example.com'']", OF h]
    by simp
  have c: "baseUrl accepts_no_space
     [''NODE_ENV'' \<mapsto> ''production'', ''VERCEL_PROJECT_PRODUCTION_URL'' \<mapsto> ''bad host'']
     = Inl TypeError"
    using baseUrl_cases [where parses = accepts_no_space and e = "[''NODE_ENV'' \<mapsto> ''production'',
      ''VERCEL_PROJECT_PRODUCTION_URL'' \<mapsto> ''bad host'']", OF h]
    by (simp add: accepts_no_space_def)
  from h a b c show ?thesis by simp
qed

section \<open>Auxiliary facts about the category lookup\<close>

lemma category_resolved:
  "category proto sl =
     (let key = (case sl of [] \<Rightarrow> ''undefined'' | s # ss \<Rightarrow> s) in
      if key = ''go'' then ''Authsome Golang (the Go library for Authsome)''
      else if key = ''rust'' then ''Authsome Rust (the Rust library for Authsome)''
      else if key = ''ui'' then ''Authsome UI (the one stop Auth UI Kit)''
      else if key = ''cli'' then ''Authsome CLI (the CLI tool for automating Authsome apps)''
      else (case proto key of Some inherited \<Rightarrow> inherited | None \<Rightarrow> key))"
  by (cases sl) (auto simp: category_def categories_def Let_def split: option.splits)

section \<open>Properties of \<^verbatim>\<open>getLLMText\<close>\<close>

text \<open>
  C8. For a page whose \<^verbatim>\<open>data.type\<close> is \<^verbatim>\<open>openapi\<close>, \<^verbatim>\<open>getLLMText\<close> returns the
  empty string and makes no call to \<^verbatim>\<open>page.data.getText\<close>. For every other page the
  returned text begins with \<^verbatim>\<open># \<close>, then the category resolved from the first slug,
  a colon and a space, and the page title. The category is the table's entry for the
  slugs \<^verbatim>\<open>go\<close>, \<^verbatim>\<open>rust\<close>, \<^verbatim>\<open>ui\<close> and \<^verbatim>\<open>cli\<close>; for any other first slug it is the
  slug itself, unless the slug names a member inherited from
  \<^verbatim>\<open>Object.prototype\<close>, whose text it then is; with no slug at all the key and the
  fallback both print as \<^verbatim>\<open>undefined\<close>.
\<close>

theorem getLLMText_shape:
  "(type (data p) = Some ''openapi'' \<longrightarrow> getLLMText proto p = ('''', [])) \<and>
   (type (data p) \<noteq> Some ''openapi'' \<longrightarrow>
    (\<exists>rest. fst (getLLMText proto p) =
       ''# '' @
       (let key = (case slugs p of [] \<Rightarrow> ''undefined'' | s # ss \<Rightarrow> s) in
        if key = ''go'' then ''Authsome Golang (the Go library for Authsome)''
        else if key = ''rust'' then ''Authsome Rust (the Rust library for Authsome)''
        else if key = ''ui'' then ''Authsome UI (the one stop Auth UI Kit)''
        else if key = ''cli'' then ''Authsome CLI (the CLI tool for automating Authsome apps)''
        else (case proto key of Some inherited \<Rightarrow> inherited | None \<Rightarrow> key))
       @ '': '' @ title (data p) @ rest))"
proof (intro conjI impI)
  assume "type (data p) = Some ''openapi''"
  then show "getLLMText proto p = ('''', [])"
    by (simp add: getLLMText_def)
next
  assume "type (data p) \<noteq> Some ''openapi''"
  then have "\<exists>rest. fst (getLLMText proto p) =
      ''# '' @ category proto (slugs p) @ '': '' @ title (data p) @ rest"
    by (simp add: getLLMText_def Let_def)
  then show "\<exists>rest. fst (getLLMText proto p) =
       ''# '' @
       (let key = (case slugs p of [] \<Rightarrow> ''undefined'' | s # ss \<Rightarrow> s) in
        if key = ''go'' then ''Authsome Golang (the Go library for Authsome)''
        else if key = ''rust'' then ''Authsome Rust (the Rust library for Authsome)''
        else if key = ''ui'' then ''Authsome UI (the one stop Auth UI Kit)''
        else if key = ''cli'' then ''Authsome CLI (the CLI tool for automating Authsome apps)''
        else (case proto key of Some inherited \<Rightarrow> inherited | None \<Rightarrow> key))
       @ '': '' @ title (data p) @ rest"
    by (simp only: category_resolved)
qed

theorem getLLMText_shape_witness:
  "getLLMText Map.empty
     \<lparr>data = \<lparr>type = Some ''openapi'', title = ''Gateway API'', description = None,
              getText = (\<lambda>k. ''body'')\<rparr>,
      slugs = [''api''], url = ''/docs/api'', path = ''api.mdx''\<rparr> = ('''', []) \<and>
   (\<exists>rest. fst (getLLMText Map.empty
       \<lparr>data = \<lparr>type = None, title = ''Intro'', description = Some ''Start here'',
                getText = (\<lambda>k. ''body'')\<rparr>,
        slugs = [''go'', ''intro''], url = ''/docs/go/intro'', path = ''go/intro.mdx''\<rparr>) =
      ''# Authsome Golang (the Go library for Authsome): Intro'' @ rest) \<and>
   (\<exists>rest. fst (getLLMText Map.empty
       \<lparr>data = \<lparr>type = None, title = ''Plugins'', description = None,
                getText = (\<lambda>k. ''body'')\<rparr>,
        slugs = [''guides'', ''plugins''], url = ''/docs/guides/plugins'',
        path = ''guides/plugins.mdx''\<rparr>) =
      ''# guides: Plugins'' @ rest) \<and>
   (\<exists>rest. fst (getLLMText Map.empty
       \<lparr>data = \<lparr>type = None, title = ''Home'', description = None,
                getText = (\<lambda>k. ''body'')\<rparr>,
        slugs = [], url = ''/docs'', path = ''index.mdx''\<rparr>) =
      ''# undefined: Home'' @ rest)"
proof -
  have a: "getLLMText Map.empty
     \<lparr>data = \<lparr>type = Some ''openapi'', title = ''Gateway API'', description = None,
              getText = (\<lambda>k. ''body'')\<rparr>,
      slugs = [''api''], url = ''/docs/api'', path = ''api.mdx''\<rparr> = ('''', [])"
    using getLLMText_shape [of
      "\<lparr>data = \<lparr>type = Some ''openapi'', title = ''Gateway API'', description = None,
               getText = (\<lambda>k. ''body'')\<rparr>,
        slugs = [''api''], url = ''/docs/api'', path = ''api.mdx''\<rparr>" Map.empty]
    by simp
  have b: "\<exists>rest. fst (getLLMText Map.empty
       \<lparr>data = \<lparr>type = None, title = ''Intro'', description = Some ''Start here'',
                getText = (\<lambda>k. ''body'')\<rparr>,
        slugs = [''go'', ''intro''], url = ''/docs/go/intro'', path = ''go/intro.mdx''\<rparr>) =
      ''# Authsome Golang (the Go library for Authsome): Intro'' @ rest"
    using getLLMText_shape [of
      "\<lparr>data = \<lparr>type = None, title = ''Intro'', description = Some ''Start here'',
               getText = (\<lambda>k. ''body'')\<rparr>,
        slugs = [''go'', ''intro''], url = ''/docs/go/intro'', path = ''go/intro.mdx''\<rparr>"
      Map.empty]
    by simp
  have c: "\<exists>rest. fst (getLLMText Map.empty
       \<lparr>data = \<lparr>type = None, title = ''Plugins'', description = None,
                getText = (\<lambda>k. ''body'')\<rparr>,
        slugs = [''guides'', ''plugins''], url = ''/docs/guides/plugins'',
        path = ''guides/plugins.mdx''\<rparr>) =
      ''# guides: Plugins'' @ rest"
    using getLLMText_shape [of
      "\<lparr>data = \<lparr>type = None, title = ''Plugins'', description = None,
                getText = (\<lambda>k. ''body'')\<rparr>,
        slugs = [''guides'', ''plugins''], url = ''/docs/guides/plugins'',
        path = ''guides/plugins.mdx''\<rparr>" Map.empty]
    by simp
  have d: "\<exists>rest. fst (getLLMText Map.empty
       \<lparr>data = \<lparr>type = None, title = ''Home'', description = None,
                getText = (\<lambda>k. ''body'')\<rparr>,
        slugs = [], url = ''/docs'', path = ''index.mdx''\<rparr>) =
      ''# undefined: Home'' @ rest"
    using getLLMText_shape [of
      "\<lparr>data = \<lparr>type = None, title = ''Home'', description = None,
                getText = (\<lambda>k. ''body'')\<rparr>,
        slugs = [], url = ''/docs'', path = ''index.mdx''\<rparr>" Map.empty]
    by simp
  from a b c d show ?thesis by blast
qed

section \<open>Properties of \<^verbatim>\<open>createMetadata\<close>\<close>



section \<open>Auxiliary facts about selection\<close>

lemma closed_all_eligible:
  "\<forall>m \<in> set ms. health_state (inst m) = Healthy \<and> state (breaker m) = Closed \<Longrightarrow>
   filter (eligible cfg now {}) ms = ms"
  by (induction ms) (simp_all add: eligible_def elapse_def permits_def)

lemma select_all_closed:
  assumes "\<forall>m \<in> set (members c). health_state (inst m) = Healthy \<and> state (breaker m) = Closed"
    and "members c \<noteq> []"
  shows "select t {} c =
           (Some (inst (members c ! (cursor c mod length (members c)))),
            c\<lparr>cursor := cursor c + 1\<rparr>)"
  using assms(2) by (simp add: select_def closed_all_eligible [OF assms(1)] round_robin_def)

lemma select_seq_all_closed:
  "\<forall>m \<in> set (members c). health_state (inst m) = Healthy \<and> state (breaker m) = Closed \<Longrightarrow>
   members c \<noteq> [] \<Longrightarrow>
   select_seq ts c =
     map (\<lambda>j. Some (inst (members c ! ((cursor c + j) mod length (members c)))))
       [0..<length ts]"
proof (induction ts arbitrary: c)
  case Nil
  then show ?case by simp
next
  case (Cons t ts)
  let ?c = "c\<lparr>cursor := cursor c + 1\<rparr>"
  have sel: "select t {} c =
      (Some (inst (members c ! (cursor c mod length (members c)))), ?c)"
    by (rule select_all_closed [OF Cons.prems])
  have "select_seq ts ?c =
      map (\<lambda>j. Some (inst (members ?c ! ((cursor ?c + j) mod length (members ?c)))))
        [0..<length ts]"
    by (rule Cons.IH) (use Cons.prems in simp_all)
  then have rest: "select_seq ts ?c =
      map (\<lambda>j. Some (inst (members c ! ((cursor c + Suc j) mod length (members c)))))
        [0..<length ts]"
    by simp
  have "[0..<length (t # ts)] = 0 # map Suc [0..<length ts]"
    by (simp add: upt_conv_Cons map_Suc_upt del: upt_Suc)
  with rest show ?case
    by (simp add: sel comp_def del: upt_Suc)
qed

lemma cycle_of_three:
  fixes k :: nat
  shows "(k mod 3 = 0 \<and> (k + 1) mod 3 = 1 \<and> (k + 2) mod 3 = 2) \<or>
         (k mod 3 = 1 \<and> (k + 1) mod 3 = 2 \<and> (k + 2) mod 3 = 0) \<or>
         (k mod 3 = 2 \<and> (k + 1) mod 3 = 0 \<and> (k + 2) mod 3 = 1)"
  by presburger

lemma upt_three: "[0..<3] = [0, 1, Suc (Suc 0)]"
  by (simp add: upt_rec)

lemma upt_ten: "[0..<10] = [0, 1, 2, 3, 4, 5, 6, 7, 8, 9]"
  by code_simp

lemma three_selects:
  assumes ok: "\<forall>m \<in> set (members c). health_state (inst m) = Healthy \<and> state (breaker m) = Closed"
    and d: "distinct (map inst (members c))"
    and l: "length (members c) = 3" "length ts = 3"
  shows "\<exists>x y z. select_seq ts c = [Some x, Some y, Some z] \<and> distinct [x, y, z] \<and>
           {x, y, z} = inst ` set (members c)"
proof -
  from l(1) obtain m0 m1 m2 where ms: "members c = [m0, m1, m2]"
    by (auto simp: length_Suc_conv numeral_3_eq_3)
  then have ne: "members c \<noteq> []" by simp
  have "select_seq ts c =
     map (\<lambda>j. Some (inst (members c ! ((cursor c + j) mod length (members c)))))
       [0..<length ts]"
    by (rule select_seq_all_closed [OF ok ne])
  then have "select_seq ts c =
     map (\<lambda>j. Some (inst (members c ! ((cursor c + j) mod 3)))) [0..<3]"
    by (simp only: l)
  then have seq: "select_seq ts c =
     [Some (inst ([m0, m1, m2] ! (cursor c mod 3))),
      Some (inst ([m0, m1, m2] ! ((cursor c + 1) mod 3))),
      Some (inst ([m0, m1, m2] ! ((cursor c + 2) mod 3)))]"
    by (simp add: upt_three ms del: upt_Suc)
  from d ms have dd: "inst m0 \<noteq> inst m1" "inst m0 \<noteq> inst m2" "inst m1 \<noteq> inst m2" by auto
  from cycle_of_three [of "cursor c"] show ?thesis
    using dd by (auto simp: seq ms)
qed

lemma ten_selects:
  assumes ok: "\<forall>m \<in> set (members c). health_state (inst m) = Healthy \<and> state (breaker m) = Closed"
    and d: "distinct (map inst (members c))"
    and l: "length (members c) = 2" "length ts = 10" and m: "m \<in> set (members c)"
  shows "count_list (select_seq ts c) (Some (inst m)) = 5"
proof -
  from l(1) obtain m0 m1 where ms: "members c = [m0, m1]"
    by (auto simp: length_Suc_conv numeral_2_eq_2)
  then have ne: "members c \<noteq> []" by simp
  have "select_seq ts c =
     map (\<lambda>j. Some (inst (members c ! ((cursor c + j) mod length (members c)))))
       [0..<length ts]"
    by (rule select_seq_all_closed [OF ok ne])
  then have "select_seq ts c =
     map (\<lambda>j. Some (inst (members c ! ((cursor c + j) mod 2)))) [0, 1, 2, 3, 4, 5, 6, 7, 8, 9]"
    by (simp only: l upt_ten)
  then have seq: "select_seq ts c =
     map (\<lambda>j. Some (inst ([m0, m1] ! ((cursor c + j) mod 2)))) [0, 1, 2, 3, 4, 5, 6, 7, 8, 9]"
    by (simp only: ms)
  from d ms have dd: "inst m0 \<noteq> inst m1" by auto
  from m ms have mm: "m = m0 \<or> m = m1" by simp
  consider (even) "cursor c mod 2 = 0" | (odd) "cursor c mod 2 = 1"
    by arith
  then show ?thesis
  proof cases
    case even
    then have e: "(cursor c + j) mod 2 = j mod 2" for j
      by presburger
    have "select_seq ts c =
      [Some (inst m0), Some (inst m1), Some (inst m0), Some (inst m1), Some (inst m0),
       Some (inst m1), Some (inst m0), Some (inst m1), Some (inst m0), Some (inst m1)]"
      by (simp add: seq e)
    with dd mm show ?thesis by auto
  next
    case odd
    then have e: "(cursor c + j) mod 2 = Suc j mod 2" for j
      by presburger
    have "select_seq ts c =
      [Some (inst m1), Some (inst m0), Some (inst m1), Some (inst m0), Some (inst m1),
       Some (inst m0), Some (inst m1), Some (inst m0), Some (inst m1), Some (inst m0)]"
      by (simp add: seq e)
    with dd mm show ?thesis by auto
  qed
qed

section \<open>Properties of round-robin selection\<close>

text \<open>
  C6. In a cluster whose instances are pairwise different, all healthy and all with a
  closed breaker, consecutive \<^verbatim>\<open>select\<close> calls with nothing excluded cycle fairly from
  any cursor position: with three instances, three consecutive calls return three
  different instances, which are exactly the cluster's; with two instances, ten
  consecutive calls return each of them exactly five times (whatever the weights).
\<close>

theorem round_robin_fair:
  assumes "\<forall>m \<in> set (members c). health_state (inst m) = Healthy \<and> state (breaker m) = Closed"
    and "distinct (map inst (members c))"
  shows
    "(length (members c) = 3 \<and> length ts = 3 \<longrightarrow>
        (\<exists>x y z. select_seq ts c = [Some x, Some y, Some z] \<and> distinct [x, y, z] \<and>
                 {x, y, z} = inst ` set (members c))) \<and>
     (length (members c) = 2 \<and> length ts = 10 \<longrightarrow>
        (\<forall>m \<in> set (members c). count_list (select_seq ts c) (Some (inst m)) = 5))"
  using three_selects [OF assms, of ts] ten_selects [OF assms, of ts] by blast

theorem round_robin_fair_witness:
  "select_seq [1, 2, 3] users_triple = [Some instance_B, Some instance_C, Some instance_A] \<and>
   count_list (select_seq [1, 2, 3, 4, 5, 6, 7, 8, 9, 10] users_pair) (Some instance_A) = 5 \<and>
   count_list (select_seq [1, 2, 3, 4, 5, 6, 7, 8, 9, 10] users_pair) (Some instance_B) = 5"
proof -
  have t: "\<forall>m \<in> set (members users_triple).
      health_state (inst m) = Healthy \<and> state (breaker m) = Closed"
    "distinct (map inst (members users_triple))"
    by (simp_all add: users_triple_def instance_A_def instance_B_def instance_C_def
        fresh_breaker_def)
  have p: "\<forall>m \<in> set (members users_pair).
      health_state (inst m) = Healthy \<and> state (breaker m) = Closed"
    "distinct (map inst (members users_pair))"
    by (simp_all add: users_pair_def instance_A_def instance_B_def fresh_breaker_def)
  have sel: "select_seq [1, 2, 3] users_triple =
      [Some instance_B, Some instance_C, Some instance_A]"
    using round_robin_fair [OF t, of "[1, 2, 3]"]
    by (simp add: users_triple_def select_def round_robin_def eligible_def elapse_def
        permits_def fresh_breaker_def instance_A_def instance_B_def instance_C_def)
  have cnt: "\<forall>m \<in> set (members users_pair).
      count_list (select_seq [1, 2, 3, 4, 5, 6, 7, 8, 9, 10] users_pair) (Some (inst m)) = 5"
    using round_robin_fair [OF p, of "[1, 2, 3, 4, 5, 6, 7, 8, 9, 10]"]
    by (simp add: users_pair_def)
  then show ?thesis
    using sel by (simp add: users_pair_def)
qed

end
